theory Spec2Isabelle
  imports Complex_Main
begin

section \<open>Python strings\<close>

text \<open>
  A Python \<open>str\<close> is a sequence of Unicode code points; a code point is modelled as a
  natural number and a string as the list of its code points. \<open>py\<close> turns a literal of
  the source into such a list. A name of the source that starts with an underscore is written
  without it (\<open>_is_model_cached\<close> is \<open>is_model_cached\<close>, \<open>_model\<close> is \<open>model\<close>).
\<close>

type_synonym str = "nat list"

definition py :: "string \<Rightarrow> str" where
  "py s = map of_char s"

text \<open>
  \<open>str.isspace\<close> on one code point: the code points whose bidirectional class is WS, B or S,
  or whose category is Zs.
\<close>

definition isspace :: "nat \<Rightarrow> bool" where
  "isspace c = ((9 \<le> c \<and> c \<le> 13) \<or> (28 \<le> c \<and> c \<le> 32) \<or> c = 133 \<or> c = 160
     \<or> c = 5760 \<or> (8192 \<le> c \<and> c \<le> 8202) \<or> c = 8232 \<or> c = 8233 \<or> c = 8239
     \<or> c = 8287 \<or> c = 12288)"

text \<open>\<open>s.strip()\<close>: leading and trailing whitespace removed.\<close>

definition strip :: "str \<Rightarrow> str" where
  "strip s = rev (dropWhile isspace (rev (dropWhile isspace s)))"

text \<open>\<open>s.replace(old, new)\<close> for a one-character \<open>old\<close>.\<close>

definition replace :: "str \<Rightarrow> nat \<Rightarrow> str \<Rightarrow> str" where
  "replace s old new = concat (map (\<lambda>c. if c = old then new else [c]) s)"

text \<open>\<open>s.split(sep)\<close> for a one-character \<open>sep\<close>.\<close>

fun split :: "str \<Rightarrow> nat \<Rightarrow> str list" where
  "split [] sep = [[]]"
| "split (c # cs) sep =
     (if c = sep then [] # split cs sep
      else (case split cs sep of [] \<Rightarrow> [[c]] | w # ws \<Rightarrow> (c # w) # ws))"

text \<open>\<open>sep.join(xs)\<close>.\<close>

fun join :: "str \<Rightarrow> str list \<Rightarrow> str" where
  "join sep [] = []"
| "join sep [x] = x"
| "join sep (x # y # ys) = x @ sep @ join sep (y # ys)"

definition slash :: nat where
  "slash = 47"

section \<open>pathlib paths (POSIX flavour)\<close>

text \<open>
  A \<open>Path\<close> object is its root (\<open>''\<close>, \<open>/\<close> or \<open>//\<close>) and the list of its segments.
  \<open>Path s\<close> is the constructor call \<open>Path(s)\<close>: \<open>posixpath.splitroot\<close>, then the segments
  between separators, dropping the empty ones and \<open>.\<close>.
\<close>

datatype path = PosixPath (root: str) (tail: "str list")

definition splitroot :: "str \<Rightarrow> str \<times> str" where
  "splitroot p =
     (if take 1 p \<noteq> [slash] then ([], p)
      else if take 1 (drop 1 p) \<noteq> [slash] \<or> take 1 (drop 2 p) = [slash] then ([slash], drop 1 p)
      else ([slash, slash], drop 2 p))"

definition segments :: "str \<Rightarrow> str list" where
  "segments rel = filter (\<lambda>x. x \<noteq> [] \<and> x \<noteq> py ''.'') (split rel slash)"

definition Path :: "str \<Rightarrow> path" where
  "Path s = (case splitroot s of (r, rel) \<Rightarrow> PosixPath r (segments rel))"

text \<open>\<open>p / key\<close> for a string \<open>key\<close>: an absolute key replaces \<open>p\<close>, a relative one is appended.\<close>

definition truediv :: "path \<Rightarrow> str \<Rightarrow> path" where
  "truediv p key =
     (if take 1 key = [slash] then Path key
      else PosixPath (root p) (tail p @ segments key))"

text \<open>\<open>str(p)\<close>.\<close>

definition str_of :: "path \<Rightarrow> str" where
  "str_of p =
     (if root p = [] \<and> tail p = [] then py ''.''
      else root p @ join [slash] (tail p))"

section \<open>Environment and configuration\<close>

text \<open>
  The process environment \<open>os.environ\<close> and the directory \<open>Path.home()\<close> resolves to
  (the home directory is taken to be known). The source reads both and never writes them.
\<close>

record config =
  environ :: "string \<rightharpoonup> str"
  home :: str

definition env_str :: "config \<Rightarrow> string \<Rightarrow> str \<Rightarrow> str" where
  "env_str cfg key dflt =
     (case environ cfg key of
        None \<Rightarrow> dflt
      | Some v \<Rightarrow> (let s = strip v in if s \<noteq> [] then s else dflt))"

definition MODEL_NAME :: "config \<Rightarrow> str" where
  "MODEL_NAME cfg = env_str cfg ''ECLIA_EMBEDDINGS_MODEL'' (py ''all-MiniLM-L6-v2'')"

section \<open>HuggingFace cache helpers\<close>

text \<open>Truth value of \<open>os.environ.get(key)\<close>: unset and the empty string are false.\<close>

definition truthy :: "str option \<Rightarrow> bool" where
  "truthy v = (case v of None \<Rightarrow> False | Some s \<Rightarrow> s \<noteq> [])"

definition Path_home :: "config \<Rightarrow> path" where
  "Path_home cfg = Path (home cfg)"

text \<open>
  Line 45 of the source: \<open>os.environ.get("HF_HOME", str(Path.home() / ".cache" / "huggingface"))\<close>.
  A set \<open>HF_HOME\<close> is taken as it is, also when it is the empty string.
\<close>

definition hf_home :: "config \<Rightarrow> str" where
  "hf_home cfg =
     (case environ cfg ''HF_HOME'' of
        Some h \<Rightarrow> h
      | None \<Rightarrow> str_of (truediv (truediv (Path_home cfg) (py ''.cache'')) (py ''huggingface'')))"

definition hf_cache_dir :: "config \<Rightarrow> path" where
  "hf_cache_dir cfg =
     (case environ cfg ''HF_HUB_CACHE'' of
        Some c \<Rightarrow> if truthy (Some c) then Path c else truediv (Path (hf_home cfg)) (py ''hub'')
      | None \<Rightarrow> truediv (Path (hf_home cfg)) (py ''hub''))"

definition model_cache_path :: "config \<Rightarrow> str \<Rightarrow> path" where
  "model_cache_path cfg model_name =
     (let safe = py ''models--'' @ replace model_name slash (py ''--'')
      in truediv (hf_cache_dir cfg) safe)"

section \<open>The file system\<close>

text \<open>
  The text of a raised exception, \<open>str(e)\<close>.
\<close>

type_synonym error = str

text \<open>
  The file system is the list of the paths that exist, each a directory or a regular file.
  A removal that succeeds deletes a path and everything below it.

  \<open>is_dir\<close> and \<open>iterdir\<close> read it through the operating system, which refuses a path with
  a segment of more than \<open>NAME_MAX\<close> bytes (in the file system encoding, UTF-8) with the error
  \<open>ENAMETOOLONG\<close>. \<open>Path.is_dir\<close> swallows the errors \<open>ENOENT\<close>, \<open>ENOTDIR\<close>, \<open>EBADF\<close> and
  \<open>ELOOP\<close> only (Python 3.10 to 3.12), so this one is raised as \<open>OSError\<close>, and so it is by
  \<open>iterdir\<close>.
\<close>

datatype kind = Directory | RegularFile

type_synonym filesystem = "(path \<times> kind) list"

definition utf8_bytes :: "nat \<Rightarrow> nat" where
  "utf8_bytes c = (if c < 128 then 1 else if c < 2048 then 2 else if c < 65536 then 3 else 4)"

definition utf8_length :: "str \<Rightarrow> nat" where
  "utf8_length s = sum_list (map utf8_bytes s)"

definition NAME_MAX :: nat where
  "NAME_MAX = 255"

definition ENAMETOOLONG :: "path \<Rightarrow> error" where
  "ENAMETOOLONG p = py ''[Errno 36] File name too long: '' @ [39] @ str_of p @ [39]"

definition stat_fault :: "path \<Rightarrow> error option" where
  "stat_fault p =
     (if list_ex (\<lambda>seg. NAME_MAX < utf8_length seg) (tail p) then Some (ENAMETOOLONG p)
      else None)"

definition is_dir :: "filesystem \<Rightarrow> path \<Rightarrow> error + bool" where
  "is_dir fs p =
     (case stat_fault p of
        Some e \<Rightarrow> Inl e
      | None \<Rightarrow> Inr (map_of fs p = Some Directory))"

definition child_of :: "path \<Rightarrow> path \<Rightarrow> bool" where
  "child_of p q = (root q = root p \<and> tail q \<noteq> [] \<and> butlast (tail q) = tail p)"

definition iterdir :: "filesystem \<Rightarrow> path \<Rightarrow> error + path list" where
  "iterdir fs p =
     (case stat_fault p of
        Some e \<Rightarrow> Inl e
      | None \<Rightarrow> Inr (filter (child_of p) (map fst fs)))"

definition inside :: "path \<Rightarrow> path \<Rightarrow> bool" where
  "inside p q = (root q = root p \<and> take (length (tail p)) (tail q) = tail p)"

definition remove_tree :: "filesystem \<Rightarrow> path \<Rightarrow> filesystem" where
  "remove_tree fs p = filter (\<lambda>e. \<not> inside p (fst e)) fs"

text \<open>
  \<open>_check\<close>, the local function of \<open>_is_model_cached\<close>. \<open>any(snapshots.iterdir())\<close> is true
  when the directory has an entry: a \<open>Path\<close> object is always true. \<open>iterdir\<close> is reached
  only when \<open>is_dir\<close> returned true. Neither function catches an exception.
\<close>

definition check :: "config \<Rightarrow> filesystem \<Rightarrow> str \<Rightarrow> error + bool" where
  "check cfg fs name =
     (let snapshots = truediv (model_cache_path cfg name) (py ''snapshots'')
      in case is_dir fs snapshots of
           Inl e \<Rightarrow> Inl e
         | Inr d \<Rightarrow>
             if d then (case iterdir fs snapshots of
                          Inl e \<Rightarrow> Inl e
                        | Inr entries \<Rightarrow> Inr (entries \<noteq> []))
             else Inr False)"

definition is_model_cached :: "config \<Rightarrow> filesystem \<Rightarrow> str \<Rightarrow> error + bool" where
  "is_model_cached cfg fs model_name =
     (case check cfg fs model_name of
        Inl e \<Rightarrow> Inl e
      | Inr found \<Rightarrow>
          if found then Inr True
          else if slash \<notin> set model_name then check cfg fs (py ''sentence-transformers/'' @ model_name)
          else Inr False)"

section \<open>The embedding library\<close>

text \<open>
  A loaded model. \<open>get_sentence_embedding_dimension\<close> returns an integer or \<open>None\<close>.
\<close>

record handle =
  ident :: nat
  get_sentence_embedding_dimension :: "int option"

text \<open>\<open>int(v)\<close> for such a value: \<open>int(None)\<close> raises \<open>TypeError\<close>.\<close>

definition int_of :: "int option \<Rightarrow> error + int" where
  "int_of v =
     (case v of
        Some n \<Rightarrow> Inr n
      | None \<Rightarrow> Inl (py ''int() argument must be a string, a bytes-like object or a real number, not ''
                     @ [39] @ py ''NoneType'' @ [39]))"

text \<open>
  A two-dimensional array, as \<open>encode\<close> returns for a list of texts: its shape and its
  entries row after row. \<open>tolist\<close> gives the rows.
\<close>

datatype 'f ndarray = NdArray (shape0: nat) (shape1: nat) (flat: "'f list")

definition tolist :: "'f ndarray \<Rightarrow> 'f list list" where
  "tolist a = map (\<lambda>i. take (shape1 a) (drop (i * shape1 a) (flat a))) [0..<shape0 a]"

definition well_shaped :: "'f ndarray \<Rightarrow> bool" where
  "well_shaped a = (length (flat a) = shape0 a * shape1 a)"

text \<open>
  What the process cannot decide by itself: whether loading a model succeeds (and what the
  download leaves on disk), what \<open>encode\<close> returns, and whether a removal fails (with what is
  left on disk then). Each is a parameter of the handlers.
\<close>

record 'f library =
  SentenceTransformer :: "filesystem \<Rightarrow> str \<Rightarrow> (error + handle) \<times> filesystem"
  encode :: "handle \<Rightarrow> str list \<Rightarrow> bool \<Rightarrow> error + 'f ndarray"
  rmtree_fault :: "filesystem \<Rightarrow> path \<Rightarrow> (error \<times> filesystem) option"

definition rmtree :: "'f library \<Rightarrow> filesystem \<Rightarrow> path \<Rightarrow> (error + unit) \<times> filesystem" where
  "rmtree lib fs p =
     (case rmtree_fault lib fs p of
        None \<Rightarrow> (Inr (), remove_tree fs p)
      | Some (e, fs') \<Rightarrow> (Inl e, fs'))"

section \<open>Process state and startup\<close>

text \<open>The globals \<open>_model\<close> and \<open>_DIM\<close>, and the disk.\<close>

record state =
  model :: "handle option"
  DIM :: int
  disk :: filesystem

text \<open>Module start: no exception is caught, neither of the cache check nor of the load.\<close>

definition startup :: "'f library \<Rightarrow> config \<Rightarrow> filesystem \<Rightarrow> error + state" where
  "startup lib cfg fs =
     (case is_model_cached cfg fs (MODEL_NAME cfg) of
        Inl e \<Rightarrow> Inl e
      | Inr cached \<Rightarrow>
          if cached then
            (case SentenceTransformer lib fs (MODEL_NAME cfg) of
               (Inl e, fs') \<Rightarrow> Inl e
             | (Inr m, fs') \<Rightarrow>
                 (case int_of (get_sentence_embedding_dimension m) of
                    Inl e \<Rightarrow> Inl e
                  | Inr d \<Rightarrow> Inr \<lparr>model = Some m, DIM = d, disk = fs'\<rparr>))
          else Inr \<lparr>model = None, DIM = 0, disk = fs\<rparr>)"

section \<open>Responses\<close>

text \<open>
  A response is the dictionary the handler returns. A handler of type \<open>error + response\<close>
  can let an exception escape (\<open>Inl\<close>, the server answers with status 500).
\<close>

datatype 'f json = JBool bool | JInt int | JStr str | JRows "'f list list"

type_synonym 'f response = "(string \<times> 'f json) list"

section \<open>Handlers\<close>

definition embed :: "'f library \<Rightarrow> config \<Rightarrow> state \<Rightarrow> str list \<Rightarrow> bool \<Rightarrow> error + 'f response" where
  "embed lib cfg st req_texts req_normalize =
     (case model st of
        None \<Rightarrow>
          Inr [(''ok'', JBool False), (''model'', JStr (MODEL_NAME cfg)), (''dim'', JInt 0),
               (''embeddings'', JRows [])]
      | Some m \<Rightarrow>
          (let texts = req_texts in
           if texts = [] then
             Inr [(''ok'', JBool True), (''model'', JStr (MODEL_NAME cfg)), (''dim'', JInt (DIM st)),
                  (''embeddings'', JRows [])]
           else
             (case encode lib m texts req_normalize of
                Inl e \<Rightarrow> Inl e
              | Inr vecs \<Rightarrow>
                  Inr [(''ok'', JBool True), (''model'', JStr (MODEL_NAME cfg)),
                       (''dim'', JInt (int (shape1 vecs))), (''embeddings'', JRows (tolist vecs))])))"


text \<open>\<open>model_status\<close> has no \<open>try\<close>: an exception of \<open>_is_model_cached\<close> escapes.\<close>

definition model_status :: "config \<Rightarrow> state \<Rightarrow> str \<Rightarrow> error + 'f response" where
  "model_status cfg st req_name =
     (let name = strip req_name in
      case is_model_cached cfg (disk st) name of
        Inl e \<Rightarrow> Inl e
      | Inr cached \<Rightarrow> Inr [(''ok'', JBool True), (''model'', JStr name), (''cached'', JBool cached)])"

text \<open>
  The body of the \<open>try\<close> block of \<open>model_download\<close>: the result is the response or the
  exception, with the state as the statements run before the exception left it.
\<close>

definition download_try :: "'f library \<Rightarrow> config \<Rightarrow> str \<Rightarrow> state \<Rightarrow> (error + 'f response) \<times> state" where
  "download_try lib cfg name st =
     (case SentenceTransformer lib (disk st) name of
        (Inl e, fs') \<Rightarrow> (Inl e, st\<lparr>disk := fs'\<rparr>)
      | (Inr m, fs') \<Rightarrow>
          (case (if name = MODEL_NAME cfg then
                   (let st1 = st\<lparr>disk := fs', model := Some m\<rparr>
                    in case int_of (get_sentence_embedding_dimension m) of
                         Inl e \<Rightarrow> (Inl e, st1)
                       | Inr d \<Rightarrow> (Inr (), st1\<lparr>DIM := d\<rparr>))
                 else (Inr (), st\<lparr>disk := fs'\<rparr>)) of
             (Inl e, st2) \<Rightarrow> (Inl e, st2)
           | (Inr u, st2) \<Rightarrow>
               (case int_of (get_sentence_embedding_dimension m) of
                  Inl e \<Rightarrow> (Inl e, st2)
                | Inr d \<Rightarrow>
                    (Inr [(''ok'', JBool True), (''model'', JStr name), (''cached'', JBool True),
                          (''dim'', JInt d)], st2))))"

definition model_download :: "'f library \<Rightarrow> config \<Rightarrow> state \<Rightarrow> str \<Rightarrow> 'f response \<times> state" where
  "model_download lib cfg st req_name =
     (let name = strip req_name in
      if name = [] then ([(''ok'', JBool False), (''error'', JStr (py ''name is required''))], st)
      else
        (case download_try lib cfg name st of
           (Inr resp, st') \<Rightarrow> (resp, st')
         | (Inl e, st') \<Rightarrow> ([(''ok'', JBool False), (''model'', JStr name), (''error'', JStr e)], st')))"

text \<open>
  The body of the \<open>try\<close> block of \<open>model_delete\<close>; \<open>cache_path.is_dir()\<close> is inside it, so
  its exception becomes the failure response.
\<close>

definition delete_try :: "'f library \<Rightarrow> config \<Rightarrow> str \<Rightarrow> path \<Rightarrow> state \<Rightarrow> (error + 'f response) \<times> state" where
  "delete_try lib cfg name cache_path st =
     (case (case is_dir (disk st) cache_path of
              Inl e \<Rightarrow> (Inl e, st)
            | Inr d \<Rightarrow>
                if d then (case rmtree lib (disk st) cache_path of (r, fs') \<Rightarrow> (r, st\<lparr>disk := fs'\<rparr>))
                else (Inr (), st)) of
        (Inl e, st1) \<Rightarrow> (Inl e, st1)
      | (Inr u, st1) \<Rightarrow>
          (let st2 = (if name = MODEL_NAME cfg then st1\<lparr>model := None, DIM := 0\<rparr> else st1)
           in (Inr [(''ok'', JBool True), (''model'', JStr name), (''cached'', JBool False)], st2)))"

definition model_delete :: "'f library \<Rightarrow> config \<Rightarrow> state \<Rightarrow> str \<Rightarrow> 'f response \<times> state" where
  "model_delete lib cfg st req_name =
     (let name = strip req_name in
      if name = [] then ([(''ok'', JBool False), (''error'', JStr (py ''name is required''))], st)
      else
        (let cache_path = model_cache_path cfg name in
         case delete_try lib cfg name cache_path st of
           (Inr resp, st') \<Rightarrow> (resp, st')
         | (Inl e, st') \<Rightarrow> ([(''ok'', JBool False), (''model'', JStr name), (''error'', JStr e)], st')))"

section \<open>Concrete inputs\<close>

text \<open>
  The default configuration (no variable set, home directory \<open>/root\<close>), three with the
  cache variables set and, further down, one with the model variable set.
\<close>

definition cfg_default :: config where
  "cfg_default = \<lparr>environ = Map.empty, home = py ''/root''\<rparr>"

definition cfg_hub_cache :: config where
  "cfg_hub_cache = \<lparr>environ = [''HF_HUB_CACHE'' \<mapsto> py ''/data/cache''], home = py ''/root''\<rparr>"

definition cfg_hf_home :: config where
  "cfg_hf_home = \<lparr>environ = [''HF_HOME'' \<mapsto> py ''/h''], home = py ''/root''\<rparr>"

definition cfg_empty_hub_cache :: config where
  "cfg_empty_hub_cache =
     \<lparr>environ = [''HF_HUB_CACHE'' \<mapsto> [], ''HF_HOME'' \<mapsto> py ''/h''], home = py ''/root''\<rparr>"

text \<open>
  Disks: one that holds the default model under the folder the library downloads it to
  (\<open>models--sentence-transformers--all-MiniLM-L6-v2\<close>), one that holds \<open>acme/encoder\<close>.
  Libraries: one that is offline and removes without fault, and variants that load a model,
  load a model whose dimension is unknown, fail to remove, and encode two texts.
\<close>

definition hub_default :: "str list" where
  "hub_default = [py ''root'', py ''.cache'', py ''huggingface'', py ''hub'']"

definition fs_prefixed :: filesystem where
  "fs_prefixed =
     [(PosixPath [slash] hub_default, Directory),
      (PosixPath [slash] (hub_default @ [py ''models--sentence-transformers--all-MiniLM-L6-v2'']), Directory),
      (PosixPath [slash] (hub_default @ [py ''models--sentence-transformers--all-MiniLM-L6-v2'', py ''snapshots'']), Directory),
      (PosixPath [slash] (hub_default @ [py ''models--sentence-transformers--all-MiniLM-L6-v2'', py ''snapshots'', py ''c9745ed1'']), Directory)]"

definition handle_384 :: handle where
  "handle_384 = \<lparr>ident = 1, get_sentence_embedding_dimension = Some 384\<rparr>"

definition lib_plain :: "real library" where
  "lib_plain =
     \<lparr>SentenceTransformer = (\<lambda>fs n. (Inl (py ''offline''), fs)),
      encode = (\<lambda>m ts b. Inl (py ''out of memory'')),
      rmtree_fault = (\<lambda>fs p. None)\<rparr>"

definition st_loaded :: state where
  "st_loaded = \<lparr>model = Some handle_384, DIM = 384, disk = fs_prefixed\<rparr>"

definition cfg_acme :: config where
  "cfg_acme = \<lparr>environ = [''ECLIA_EMBEDDINGS_MODEL'' \<mapsto> py ''acme/encoder''], home = py ''/root''\<rparr>"

definition fs_acme :: filesystem where
  "fs_acme =
     [(PosixPath [slash] hub_default, Directory),
      (PosixPath [slash] (hub_default @ [py ''models--acme--encoder'']), Directory),
      (PosixPath [slash] (hub_default @ [py ''models--acme--encoder'', py ''snapshots'']), Directory),
      (PosixPath [slash] (hub_default @ [py ''models--acme--encoder'', py ''snapshots'', py ''0f3a'']), Directory)]"

definition st_acme :: state where
  "st_acme = \<lparr>model = Some handle_384, DIM = 384, disk = fs_acme\<rparr>"

definition st_unloaded :: state where
  "st_unloaded = \<lparr>model = None, DIM = 0, disk = []\<rparr>"

definition st_stale :: state where
  "st_stale = \<lparr>model = Some handle_384, DIM = 512, disk = fs_prefixed\<rparr>"

definition handle_768 :: handle where
  "handle_768 = \<lparr>ident = 2, get_sentence_embedding_dimension = Some 768\<rparr>"

definition handle_no_dim :: handle where
  "handle_no_dim = \<lparr>ident = 3, get_sentence_embedding_dimension = None\<rparr>"

definition lib_loads :: "real library" where
  "lib_loads = lib_plain\<lparr>SentenceTransformer := (\<lambda>fs n. (Inr handle_768, fs))\<rparr>"

definition lib_no_dim :: "real library" where
  "lib_no_dim = lib_plain\<lparr>SentenceTransformer := (\<lambda>fs n. (Inr handle_no_dim, fs))\<rparr>"

definition lib_rm_fails :: "real library" where
  "lib_rm_fails = lib_plain\<lparr>rmtree_fault := (\<lambda>fs p. Some (py ''Permission denied'', fs))\<rparr>"

definition lib_encodes :: "real library" where
  "lib_encodes = lib_plain\<lparr>encode := (\<lambda>m ts b. Inr (NdArray 2 3 [1, 0, 0, 0, 1, 0]))\<rparr>"


section \<open>Paths: one clean segment is appended as it is\<close>

definition clean :: "str \<Rightarrow> bool" where
  "clean x = (x \<noteq> [] \<and> x \<noteq> py ''.'' \<and> slash \<notin> set x)"

definition normal :: "path \<Rightarrow> bool" where
  "normal p = ((root p = [] \<or> root p = [slash] \<or> root p = [slash, slash]) \<and> list_all clean (tail p))"

section \<open>Evaluation\<close>

text \<open>The defining equations, for evaluating the handlers on concrete inputs.\<close>

lemmas string_defs = py_def slash_def isspace_def strip_def replace_def

lemmas path_defs = splitroot_def segments_def Path_def truediv_def str_of_def

lemmas cache_defs =
  env_str_def MODEL_NAME_def truthy_def Path_home_def hf_home_def hf_cache_dir_def
  model_cache_path_def utf8_bytes_def utf8_length_def NAME_MAX_def stat_fault_def
  is_dir_def child_of_def iterdir_def inside_def remove_tree_def
  check_def is_model_cached_def

lemmas handler_defs =
  int_of_def rmtree_def embed_def model_status_def download_try_def model_download_def
  delete_try_def model_delete_def Let_def

lemmas input_defs =
  cfg_default_def cfg_hub_cache_def cfg_hf_home_def cfg_empty_hub_cache_def cfg_acme_def
  hub_default_def fs_prefixed_def fs_acme_def handle_384_def handle_768_def handle_no_dim_def
  lib_plain_def lib_loads_def lib_no_dim_def lib_rm_fails_def lib_encodes_def
  st_loaded_def st_acme_def st_unloaded_def st_stale_def

lemmas eval_defs = string_defs path_defs cache_defs handler_defs input_defs

lemma split_no_sep: "sep \<notin> set s \<Longrightarrow> split s sep = [s]"
  by (induction s) auto

lemma split_append_sep: "sep \<notin> set u \<Longrightarrow> split (u @ sep # v) sep = u # split v sep"
  by (induction u) auto

lemma split_parts_no_sep: "x \<in> set (split s sep) \<Longrightarrow> sep \<notin> set x"
proof (induction s arbitrary: x)
  case Nil
  then show ?case by simp
next
  case (Cons a s)
  then show ?case by (auto split: if_splits list.splits)
qed

lemma truediv_clean: "clean s \<Longrightarrow> truediv p s = PosixPath (root p) (tail p @ [s])"
proof -
  assume c: "clean s"
  then have "take 1 s \<noteq> [slash]" by (cases s) (auto simp: clean_def)
  moreover from c have "segments s = [s]" by (simp add: segments_def split_no_sep clean_def)
  ultimately show ?thesis by (simp add: truediv_def)
qed

lemma clean_literals:
  "clean (py ''.cache'')" "clean (py ''huggingface'')" "clean (py ''hub'')"
  "clean (py ''snapshots'')"
  by (simp_all add: clean_def py_def slash_def)

lemma replace_no_old: "old \<notin> set new \<Longrightarrow> old \<notin> set (replace s old new)"
  by (induction s) (auto simp: replace_def)

lemma replace_unchanged: "old \<notin> set s \<Longrightarrow> replace s old new = s"
  by (induction s) (auto simp: replace_def)

lemma replace_append: "replace (u @ v) old new = replace u old new @ replace v old new"
  by (simp add: replace_def)

lemma dashes_no_slash: "slash \<notin> set (py ''--'')"
  by (simp add: py_def slash_def)

lemma clean_safe: "clean (py ''models--'' @ replace n slash (py ''--''))"
proof -
  have "slash \<notin> set (replace n slash (py ''--''))"
    using dashes_no_slash by (rule replace_no_old)
  moreover have "slash \<notin> set (py ''models--'')" by (simp add: py_def slash_def)
  moreover have "py ''models--'' @ replace n slash (py ''--'') \<noteq> py ''.''" by (simp add: py_def)
  ultimately show ?thesis by (simp add: clean_def py_def)
qed

lemma model_cache_path_eq:
  "model_cache_path cfg n =
     PosixPath (root (hf_cache_dir cfg))
       (tail (hf_cache_dir cfg) @ [py ''models--'' @ replace n slash (py ''--'')])"
  unfolding model_cache_path_def Let_def by (rule truediv_clean) (rule clean_safe)

section \<open>Paths: \<open>Path(str(p))\<close> is \<open>p\<close>\<close>

lemma split_join:
  "xs \<noteq> [] \<Longrightarrow> list_all (\<lambda>x. slash \<notin> set x) xs \<Longrightarrow> split (join [slash] xs) slash = xs"
proof (induction xs rule: induct_list012)
  case 1
  then show ?case by simp
next
  case (2 x)
  then show ?case by (simp add: split_no_sep)
next
  case (3 x y ys)
  then show ?case by (simp add: split_append_sep)
qed

lemma segments_join: "list_all clean xs \<Longrightarrow> segments (join [slash] xs) = xs"
proof (cases xs)
  case Nil
  then show ?thesis by (simp add: segments_def py_def)
next
  case (Cons a as)
  assume c: "list_all clean xs"
  then have "list_all (\<lambda>x. slash \<notin> set x) xs" by (simp add: list_all_iff clean_def)
  with Cons have "split (join [slash] xs) slash = xs" by (simp add: split_join)
  moreover from c have "filter (\<lambda>x. x \<noteq> [] \<and> x \<noteq> py ''.'') xs = xs"
    by (simp add: list_all_iff clean_def filter_id_conv)
  ultimately show ?thesis by (simp add: segments_def)
qed

lemma join_head: "list_all clean xs \<Longrightarrow> take 1 (join [slash] xs) \<noteq> [slash]"
proof (induction xs rule: induct_list012)
  case 1
  then show ?case by simp
next
  case (2 x)
  then show ?case by (cases x) (auto simp: clean_def)
next
  case (3 x y ys)
  then show ?case by (cases x) (auto simp: clean_def)
qed

lemma splitroot_root:
  "r = [] \<or> r = [slash] \<or> r = [slash, slash] \<Longrightarrow> take 1 rel \<noteq> [slash] \<Longrightarrow>
   splitroot (r @ rel) = (r, rel)"
  by (cases rel) (auto simp: splitroot_def)

lemma Path_str_of: "normal p \<Longrightarrow> tail p \<noteq> [] \<Longrightarrow> Path (str_of p) = p"
proof -
  assume n: "normal p" and t: "tail p \<noteq> []"
  from n have c: "list_all clean (tail p)" by (simp add: normal_def)
  from n have r: "root p = [] \<or> root p = [slash] \<or> root p = [slash, slash]"
    by (simp add: normal_def)
  have "splitroot (root p @ join [slash] (tail p)) = (root p, join [slash] (tail p))"
    using r join_head[OF c] by (rule splitroot_root)
  then show ?thesis using t c by (simp add: Path_def str_of_def segments_join)
qed

lemma normal_Path: "normal (Path s)"
proof -
  have "list_all clean (segments s')" for s'
    using split_parts_no_sep[of _ s' slash] by (auto simp: segments_def list_all_iff clean_def)
  then show ?thesis by (auto simp: Path_def normal_def splitroot_def)
qed

lemma default_hub:
  "truediv (Path (str_of (truediv (truediv (Path h) (py ''.cache'')) (py ''huggingface'')))) (py ''hub'')
   = PosixPath (root (Path h)) (tail (Path h) @ [py ''.cache'', py ''huggingface'', py ''hub''])"
proof -
  let ?q = "PosixPath (root (Path h)) (tail (Path h) @ [py ''.cache'', py ''huggingface''])"
  have q: "truediv (truediv (Path h) (py ''.cache'')) (py ''huggingface'') = ?q"
    by (simp add: truediv_clean clean_literals)
  have "normal ?q" using normal_Path[of h] by (simp add: normal_def clean_literals)
  then have "Path (str_of ?q) = ?q" by (rule Path_str_of) simp
  then show ?thesis by (simp add: q truediv_clean clean_literals)
qed

lemma hub_under_home:
  "environ cfg ''HF_HOME'' = Some h \<Longrightarrow>
   truediv (Path (hf_home cfg)) (py ''hub'') = PosixPath (root (Path h)) (tail (Path h) @ [py ''hub''])"
  by (simp add: hf_home_def truediv_clean clean_literals)

lemma hub_under_default:
  "environ cfg ''HF_HOME'' = None \<Longrightarrow>
   truediv (Path (hf_home cfg)) (py ''hub'') =
     PosixPath (root (Path (home cfg)))
       (tail (Path (home cfg)) @ [py ''.cache'', py ''huggingface'', py ''hub''])"
  by (simp add: hf_home_def Path_home_def default_hub)

section \<open>Cache Locator\<close>

text \<open>
  C8, as amended. The cache root is \<open>HF_HUB_CACHE\<close> taken as it is when that variable is set to
  a non-empty string. When it is unset or empty, the root is the directory \<open>hub\<close> under
  \<open>HF_HOME\<close> if that variable is set (to any string), and otherwise the directory \<open>hub\<close> under
  \<open>.cache/huggingface\<close> in the home directory. The model's cache path is the cache root with
  one more segment, \<open>models--\<close> followed by the identifier with each \<open>/\<close> replaced by \<open>--\<close>;
  the segment contains no separator, and for \<open>provider/name\<close> it is
  \<open>models--provider--name\<close>. All of it is a function of the configuration and the
  identifier alone.
\<close>

theorem cache_locator:
  "(\<forall>c. environ cfg ''HF_HUB_CACHE'' = Some c \<and> c \<noteq> [] \<longrightarrow> hf_cache_dir cfg = Path c)
   \<and> (\<forall>h. (environ cfg ''HF_HUB_CACHE'' = None \<or> environ cfg ''HF_HUB_CACHE'' = Some [])
          \<and> environ cfg ''HF_HOME'' = Some h \<longrightarrow>
          hf_cache_dir cfg = PosixPath (root (Path h)) (tail (Path h) @ [py ''hub'']))
   \<and> ((environ cfg ''HF_HUB_CACHE'' = None \<or> environ cfg ''HF_HUB_CACHE'' = Some [])
          \<and> environ cfg ''HF_HOME'' = None \<longrightarrow>
          hf_cache_dir cfg =
            PosixPath (root (Path (home cfg)))
              (tail (Path (home cfg)) @ [py ''.cache'', py ''huggingface'', py ''hub'']))
   \<and> model_cache_path cfg name =
       PosixPath (root (hf_cache_dir cfg))
         (tail (hf_cache_dir cfg) @ [py ''models--'' @ replace name slash (py ''--'')])
   \<and> slash \<notin> set (py ''models--'' @ replace name slash (py ''--''))
   \<and> (slash \<notin> set provider \<and> slash \<notin> set nm \<longrightarrow>
        py ''models--'' @ replace (provider @ slash # nm) slash (py ''--'') =
        py ''models--'' @ provider @ py ''--'' @ nm)"
proof -
  have a: "\<forall>c. environ cfg ''HF_HUB_CACHE'' = Some c \<and> c \<noteq> [] \<longrightarrow> hf_cache_dir cfg = Path c"
    by (simp add: hf_cache_dir_def truthy_def)
  have fall: "environ cfg ''HF_HUB_CACHE'' = None \<or> environ cfg ''HF_HUB_CACHE'' = Some [] \<Longrightarrow>
      hf_cache_dir cfg = truediv (Path (hf_home cfg)) (py ''hub'')"
    by (auto simp: hf_cache_dir_def truthy_def)
  have b: "\<forall>h. (environ cfg ''HF_HUB_CACHE'' = None \<or> environ cfg ''HF_HUB_CACHE'' = Some [])
          \<and> environ cfg ''HF_HOME'' = Some h \<longrightarrow>
          hf_cache_dir cfg = PosixPath (root (Path h)) (tail (Path h) @ [py ''hub''])"
    using fall hub_under_home by simp
  have c: "(environ cfg ''HF_HUB_CACHE'' = None \<or> environ cfg ''HF_HUB_CACHE'' = Some [])
          \<and> environ cfg ''HF_HOME'' = None \<longrightarrow>
          hf_cache_dir cfg =
            PosixPath (root (Path (home cfg)))
              (tail (Path (home cfg)) @ [py ''.cache'', py ''huggingface'', py ''hub''])"
    using fall hub_under_default by simp
  have d: "slash \<notin> set (py ''models--'' @ replace name slash (py ''--''))"
    using clean_safe[of name] by (simp add: clean_def)
  have e: "slash \<notin> set provider \<and> slash \<notin> set nm \<longrightarrow>
        py ''models--'' @ replace (provider @ slash # nm) slash (py ''--'') =
        py ''models--'' @ provider @ py ''--'' @ nm"
  proof
    assume h: "slash \<notin> set provider \<and> slash \<notin> set nm"
    have "replace (provider @ [slash] @ nm) slash (py ''--'')
          = replace provider slash (py ''--'') @ replace [slash] slash (py ''--'')
            @ replace nm slash (py ''--'')"
      by (simp only: replace_append)
    moreover have "replace [slash] slash (py ''--'') = py ''--''" by (simp add: replace_def)
    ultimately show "py ''models--'' @ replace (provider @ slash # nm) slash (py ''--'') =
        py ''models--'' @ provider @ py ''--'' @ nm"
      using h by (simp add: replace_unchanged)
  qed
  from a b c d e model_cache_path_eq[of cfg name] show ?thesis by blast
qed

text \<open>
  C8, instance: the four configurations, and the cache path of \<open>BAAI/bge-small-en\<close> under the
  default one.
\<close>

theorem cache_locator_witness:
  "hf_cache_dir cfg_hub_cache = PosixPath [slash] [py ''data'', py ''cache'']
   \<and> hf_cache_dir cfg_hf_home = PosixPath [slash] [py ''h'', py ''hub'']
   \<and> hf_cache_dir cfg_empty_hub_cache = PosixPath [slash] [py ''h'', py ''hub'']
   \<and> hf_cache_dir cfg_default = PosixPath [slash] [py ''root'', py ''.cache'', py ''huggingface'', py ''hub'']
   \<and> model_cache_path cfg_default (py ''BAAI/bge-small-en'') =
       PosixPath [slash] [py ''root'', py ''.cache'', py ''huggingface'', py ''hub'', py ''models--BAAI--bge-small-en'']"
proof -
  have e1: "environ cfg_hub_cache ''HF_HUB_CACHE'' = Some (py ''/data/cache'')" "py ''/data/cache'' \<noteq> []"
    by (simp_all add: cfg_hub_cache_def py_def)
  have e2: "environ cfg_hf_home ''HF_HUB_CACHE'' = None" "environ cfg_hf_home ''HF_HOME'' = Some (py ''/h'')"
    by (simp_all add: cfg_hf_home_def)
  have e3: "environ cfg_empty_hub_cache ''HF_HUB_CACHE'' = Some []"
    "environ cfg_empty_hub_cache ''HF_HOME'' = Some (py ''/h'')"
    by (simp_all add: cfg_empty_hub_cache_def)
  have e4: "environ cfg_default ''HF_HUB_CACHE'' = None" "environ cfg_default ''HF_HOME'' = None"
    "home cfg_default = py ''/root''"
    by (simp_all add: cfg_default_def)
  have a: "hf_cache_dir cfg_hub_cache = Path (py ''/data/cache'')"
    using cache_locator[where cfg = cfg_hub_cache] e1 by blast
  have b: "hf_cache_dir cfg_hf_home = PosixPath (root (Path (py ''/h''))) (tail (Path (py ''/h'')) @ [py ''hub''])"
    using cache_locator[where cfg = cfg_hf_home] e2 by blast
  have c: "hf_cache_dir cfg_empty_hub_cache = PosixPath (root (Path (py ''/h''))) (tail (Path (py ''/h'')) @ [py ''hub''])"
    using cache_locator[where cfg = cfg_empty_hub_cache] e3 by blast
  have d: "hf_cache_dir cfg_default = PosixPath (root (Path (py ''/root'')))
              (tail (Path (py ''/root'')) @ [py ''.cache'', py ''huggingface'', py ''hub''])"
    using cache_locator[where cfg = cfg_default] e4 by metis
  have e: "model_cache_path cfg_default (py ''BAAI/bge-small-en'') =
       PosixPath (root (hf_cache_dir cfg_default))
         (tail (hf_cache_dir cfg_default) @ [py ''models--'' @ replace (py ''BAAI/bge-small-en'') slash (py ''--'')])"
    using cache_locator[where cfg = cfg_default and name = "py ''BAAI/bge-small-en''"] by blast
  have p1: "Path (py ''/data/cache'') = PosixPath [slash] [py ''data'', py ''cache'']" by (simp add: eval_defs)
  have p2: "Path (py ''/h'') = PosixPath [slash] [py ''h'']" by (simp add: eval_defs)
  have p3: "Path (py ''/root'') = PosixPath [slash] [py ''root'']" by (simp add: eval_defs)
  have q: "slash \<notin> set (py ''BAAI'') \<and> slash \<notin> set (py ''bge-small-en'')"
    "py ''BAAI'' @ slash # py ''bge-small-en'' = py ''BAAI/bge-small-en''"
    "py ''models--'' @ py ''BAAI'' @ py ''--'' @ py ''bge-small-en'' = py ''models--BAAI--bge-small-en''"
    by (simp_all add: py_def slash_def)
  have "py ''models--'' @ replace (py ''BAAI'' @ slash # py ''bge-small-en'') slash (py ''--'') =
        py ''models--'' @ py ''BAAI'' @ py ''--'' @ py ''bge-small-en''"
    using cache_locator[where provider = "py ''BAAI''" and nm = "py ''bge-small-en''"] q(1) by blast
  then have p4: "py ''models--'' @ replace (py ''BAAI/bge-small-en'') slash (py ''--'') = py ''models--BAAI--bge-small-en''"
    unfolding q(2,3) .
  show ?thesis unfolding a b c e d p1 p2 p3 p4 by simp
qed

text \<open>
  C8 as stated fails when \<open>HF_HUB_CACHE\<close> is set to the empty string: the variable is set, and
  the cache root is neither that override nor \<open>hub\<close> under it, but \<open>hub\<close> under \<open>HF_HOME\<close>.
\<close>

theorem cache_locator_counterexample:
  "environ cfg_empty_hub_cache ''HF_HUB_CACHE'' = Some []
   \<and> hf_cache_dir cfg_empty_hub_cache \<noteq> Path []
   \<and> hf_cache_dir cfg_empty_hub_cache \<noteq> truediv (Path []) (py ''hub'')
   \<and> hf_cache_dir cfg_empty_hub_cache = PosixPath [slash] [py ''h'', py ''hub'']"
  by (simp add: eval_defs)

section \<open>Cache Inspector\<close>

lemma MODEL_NAME_nonempty: "MODEL_NAME cfg \<noteq> []"
  by (simp add: MODEL_NAME_def env_str_def Let_def py_def split: option.splits)


lemma check_True_iff:
  "check cfg fs n = Inr True \<longleftrightarrow>
     is_dir fs (truediv (model_cache_path cfg n) (py ''snapshots'')) = Inr True
     \<and> iterdir fs (truediv (model_cache_path cfg n) (py ''snapshots'')) \<noteq> Inr []"
  by (auto simp: check_def Let_def is_dir_def iterdir_def split: sum.splits option.splits)










section \<open>Status\<close>









section \<open>Embedding Service\<close>

text \<open>
  C2, as amended. With a model loaded, \<open>embed\<close> on an empty list of texts returns \<open>ok = True\<close>,
  the stored dimension and no vectors, for either value of the normalize flag. With no model
  loaded it returns \<open>ok = False\<close>, dimension 0 and no vectors: the check for a loaded model
  comes first.
\<close>

theorem embed_empty_texts:
  "(\<forall>m. model st = Some m \<longrightarrow>
       embed lib cfg st [] req_normalize =
         Inr [(''ok'', JBool True), (''model'', JStr (MODEL_NAME cfg)), (''dim'', JInt (DIM st)),
              (''embeddings'', JRows [])])
   \<and> (model st = None \<longrightarrow>
       embed lib cfg st [] req_normalize =
         Inr [(''ok'', JBool False), (''model'', JStr (MODEL_NAME cfg)), (''dim'', JInt 0),
              (''embeddings'', JRows [])])"
  by (simp add: embed_def)

text \<open>C2, instance: a loaded and an unloaded state.\<close>

theorem embed_empty_texts_witness:
  "embed lib_plain cfg_default st_loaded [] False =
     Inr [(''ok'', JBool True), (''model'', JStr (py ''all-MiniLM-L6-v2'')), (''dim'', JInt 384),
          (''embeddings'', JRows [])]
   \<and> embed lib_plain cfg_default st_unloaded [] False =
     Inr [(''ok'', JBool False), (''model'', JStr (py ''all-MiniLM-L6-v2'')), (''dim'', JInt 0),
          (''embeddings'', JRows [])]"
proof -
  have m: "model st_loaded = Some handle_384" "DIM st_loaded = 384" "model st_unloaded = None"
    by (simp_all add: st_loaded_def st_unloaded_def)
  have n: "MODEL_NAME cfg_default = py ''all-MiniLM-L6-v2''"
    by (simp add: MODEL_NAME_def env_str_def cfg_default_def)
  from embed_empty_texts[of st_loaded lib_plain cfg_default False]
       embed_empty_texts[of st_unloaded lib_plain cfg_default False] m n
  show ?thesis by simp
qed

text \<open>
  C2 as stated fails in the unloaded state: the response to the empty list has \<open>ok = False\<close>.
\<close>

theorem embed_empty_texts_counterexample:
  "model st_unloaded = None
   \<and> embed lib_plain cfg_default st_unloaded [] True =
     Inr [(''ok'', JBool False), (''model'', JStr (py ''all-MiniLM-L6-v2'')), (''dim'', JInt 0),
          (''embeddings'', JRows [])]"
  by (simp add: embed_def st_unloaded_def MODEL_NAME_def env_str_def cfg_default_def)

lemma tolist_row_length:
  assumes "well_shaped a" "row \<in> set (tolist a)"
  shows "length row = shape1 a"
proof -
  from assms(2) obtain i where i: "i < shape0 a" and row: "row = take (shape1 a) (drop (i * shape1 a) (flat a))"
    by (auto simp: tolist_def)
  from i have "Suc i * shape1 a \<le> shape0 a * shape1 a" by (intro mult_le_mono1) simp
  then have "shape1 a \<le> length (flat a) - i * shape1 a"
    using assms(1) by (simp add: well_shaped_def)
  then show ?thesis by (simp add: row)
qed

text \<open>
  C9. With a model loaded and a non-empty list of texts, when \<open>encode\<close> returns an array the
  response has \<open>ok = True\<close>, its \<open>dim\<close> is the second component of the array's shape and its
  vectors are the array's rows. The stored dimension \<open>DIM\<close> plays no part: the response is the
  same whatever it is. There is one row per first component of the shape, and each row of a
  well-shaped array has length \<open>dim\<close>.
\<close>

theorem embed_dim_from_encode:
  "model st = Some m \<and> texts \<noteq> [] \<and> encode lib m texts req_normalize = Inr vecs \<longrightarrow>
     embed lib cfg st texts req_normalize =
       Inr [(''ok'', JBool True), (''model'', JStr (MODEL_NAME cfg)),
            (''dim'', JInt (int (shape1 vecs))), (''embeddings'', JRows (tolist vecs))]
     \<and> (\<forall>d. embed lib cfg (st\<lparr>DIM := d\<rparr>) texts req_normalize = embed lib cfg st texts req_normalize)
     \<and> length (tolist vecs) = shape0 vecs
     \<and> (well_shaped vecs \<longrightarrow> (\<forall>row \<in> set (tolist vecs). int (length row) = int (shape1 vecs)))"
proof
  assume h: "model st = Some m \<and> texts \<noteq> [] \<and> encode lib m texts req_normalize = Inr vecs"
  have a: "embed lib cfg st texts req_normalize =
       Inr [(''ok'', JBool True), (''model'', JStr (MODEL_NAME cfg)),
            (''dim'', JInt (int (shape1 vecs))), (''embeddings'', JRows (tolist vecs))]"
    using h by (simp add: embed_def Let_def)
  have b: "\<forall>d. embed lib cfg (st\<lparr>DIM := d\<rparr>) texts req_normalize = embed lib cfg st texts req_normalize"
    using h by (simp add: embed_def Let_def)
  have c: "length (tolist vecs) = shape0 vecs" by (simp add: tolist_def)
  have d: "well_shaped vecs \<longrightarrow> (\<forall>row \<in> set (tolist vecs). int (length row) = int (shape1 vecs))"
    using tolist_row_length[of vecs] by simp
  from a b c d show "embed lib cfg st texts req_normalize =
       Inr [(''ok'', JBool True), (''model'', JStr (MODEL_NAME cfg)),
            (''dim'', JInt (int (shape1 vecs))), (''embeddings'', JRows (tolist vecs))]
     \<and> (\<forall>d. embed lib cfg (st\<lparr>DIM := d\<rparr>) texts req_normalize = embed lib cfg st texts req_normalize)
     \<and> length (tolist vecs) = shape0 vecs
     \<and> (well_shaped vecs \<longrightarrow> (\<forall>row \<in> set (tolist vecs). int (length row) = int (shape1 vecs)))"
    by blast
qed

text \<open>
  C9, instance: the stored dimension is 512, \<open>encode\<close> returns a 2 by 3 array, and the
  response reports 3.
\<close>

theorem embed_dim_from_encode_witness:
  "DIM st_stale = 512
   \<and> well_shaped (NdArray 2 3 [1, 0, 0, 0, 1, 0 :: real])
   \<and> list_all (\<lambda>row. length row = 3) (tolist (NdArray 2 3 [1, 0, 0, 0, 1, 0 :: real]))
   \<and> embed lib_encodes cfg_default st_stale [py ''hello'', py ''world''] True =
       Inr [(''ok'', JBool True), (''model'', JStr (py ''all-MiniLM-L6-v2'')), (''dim'', JInt 3),
            (''embeddings'', JRows [[1, 0, 0], [0, 1, 0]])]"
proof -
  have m: "model st_stale = Some handle_384" "DIM st_stale = 512" by (simp_all add: st_stale_def)
  have t: "[py ''hello'', py ''world''] \<noteq> []" by simp
  have e: "encode lib_encodes handle_384 [py ''hello'', py ''world''] True = Inr (NdArray 2 3 [1, 0, 0, 0, 1, 0])"
    by (simp add: lib_encodes_def lib_plain_def)
  have n: "MODEL_NAME cfg_default = py ''all-MiniLM-L6-v2''"
    by (simp add: MODEL_NAME_def env_str_def cfg_default_def)
  have l: "tolist (NdArray 2 3 [1, 0, 0, 0, 1, 0::real]) = [[1, 0, 0], [0, 1, 0]]"
    by (simp add: tolist_def upt_rec)
  have w: "well_shaped (NdArray 2 3 [1, 0, 0, 0, 1, 0 :: real])" by (simp add: well_shaped_def)
  note th = embed_dim_from_encode[of st_stale handle_384 "[py ''hello'', py ''world'']" lib_encodes True
         "NdArray 2 3 [1, 0, 0, 0, 1, 0]" cfg_default]
  from th m t e w
  have "\<forall>row \<in> set (tolist (NdArray 2 3 [1, 0, 0, 0, 1, 0 :: real])).
          int (length row) = int (shape1 (NdArray 2 3 [1, 0, 0, 0, 1, 0 :: real]))"
    by blast
  then have r: "list_all (\<lambda>row. length row = 3) (tolist (NdArray 2 3 [1, 0, 0, 0, 1, 0 :: real]))"
    by (simp add: list_all_iff)
  from th m t e
  have "embed lib_encodes cfg_default st_stale [py ''hello'', py ''world''] True =
       Inr [(''ok'', JBool True), (''model'', JStr (MODEL_NAME cfg_default)),
            (''dim'', JInt (int (shape1 (NdArray 2 3 [1, 0, 0, 0, 1, 0::real])))),
            (''embeddings'', JRows (tolist (NdArray 2 3 [1, 0, 0, 0, 1, 0])))]"
    by blast
  then show ?thesis using m n l w r by simp
qed

section \<open>Download\<close>

text \<open>
  C7. The identifier of a request is its name with surrounding whitespace stripped, the
  value the handler compares with \<open>MODEL_NAME\<close>. When it differs from \<open>MODEL_NAME\<close>,
  \<open>model_download\<close> leaves \<open>model\<close> and \<open>DIM\<close> as they were, whatever the load does; when the
  load succeeds with dimension \<open>d\<close>, the response reports \<open>d\<close> and the new handle is in no
  part of the state.
\<close>

theorem download_other_name_keeps_registry:
  "strip req_name \<noteq> MODEL_NAME cfg \<longrightarrow>
     model (snd (model_download lib cfg st req_name)) = model st
     \<and> DIM (snd (model_download lib cfg st req_name)) = DIM st
     \<and> (\<forall>m fs' d. strip req_name \<noteq> []
            \<and> SentenceTransformer lib (disk st) (strip req_name) = (Inr m, fs')
            \<and> get_sentence_embedding_dimension m = Some d \<longrightarrow>
          model_download lib cfg st req_name =
            ([(''ok'', JBool True), (''model'', JStr (strip req_name)), (''cached'', JBool True),
              (''dim'', JInt d)], st\<lparr>disk := fs'\<rparr>))"
proof
  assume ne: "strip req_name \<noteq> MODEL_NAME cfg"
  obtain r fs' where l: "SentenceTransformer lib (disk st) (strip req_name) = (r, fs')"
    by (cases "SentenceTransformer lib (disk st) (strip req_name)")
  have t: "snd (download_try lib cfg (strip req_name) st) = st\<lparr>disk := fs'\<rparr>"
    using ne l by (simp add: download_try_def int_of_def split: sum.splits option.splits)
  have s: "snd (model_download lib cfg st req_name) = st \<or> snd (model_download lib cfg st req_name) = st\<lparr>disk := fs'\<rparr>"
    using t by (auto simp: model_download_def Let_def split: prod.splits sum.splits)
  have a: "model (snd (model_download lib cfg st req_name)) = model st" using s by auto
  have b: "DIM (snd (model_download lib cfg st req_name)) = DIM st" using s by auto
  have c: "\<forall>m fs' d. strip req_name \<noteq> []
            \<and> SentenceTransformer lib (disk st) (strip req_name) = (Inr m, fs')
            \<and> get_sentence_embedding_dimension m = Some d \<longrightarrow>
          model_download lib cfg st req_name =
            ([(''ok'', JBool True), (''model'', JStr (strip req_name)), (''cached'', JBool True),
              (''dim'', JInt d)], st\<lparr>disk := fs'\<rparr>)"
    using ne by (simp add: model_download_def download_try_def int_of_def Let_def)
  from a b c show "model (snd (model_download lib cfg st req_name)) = model st
     \<and> DIM (snd (model_download lib cfg st req_name)) = DIM st
     \<and> (\<forall>m fs' d. strip req_name \<noteq> []
            \<and> SentenceTransformer lib (disk st) (strip req_name) = (Inr m, fs')
            \<and> get_sentence_embedding_dimension m = Some d \<longrightarrow>
          model_download lib cfg st req_name =
            ([(''ok'', JBool True), (''model'', JStr (strip req_name)), (''cached'', JBool True),
              (''dim'', JInt d)], st\<lparr>disk := fs'\<rparr>))" by blast
qed

text \<open>
  C7, instance: \<open>acme/encoder\<close> is loaded with dimension 768 while the default model stays
  active with dimension 384.
\<close>

theorem download_other_name_keeps_registry_witness:
  "strip (py ''acme/encoder'') \<noteq> MODEL_NAME cfg_default
   \<and> model_download lib_loads cfg_default st_loaded (py ''acme/encoder'') =
       ([(''ok'', JBool True), (''model'', JStr (py ''acme/encoder'')), (''cached'', JBool True),
         (''dim'', JInt 768)], st_loaded)
   \<and> model st_loaded = Some handle_384 \<and> DIM st_loaded = 384"
proof -
  have s: "strip (py ''acme/encoder'') = py ''acme/encoder''" by (simp add: eval_defs)
  have n: "MODEL_NAME cfg_default = py ''all-MiniLM-L6-v2''"
    by (simp add: MODEL_NAME_def env_str_def cfg_default_def)
  have ne: "strip (py ''acme/encoder'') \<noteq> MODEL_NAME cfg_default" unfolding s n by (simp add: py_def)
  have ne0: "strip (py ''acme/encoder'') \<noteq> []" unfolding s by (simp add: py_def)
  have l: "SentenceTransformer lib_loads (disk st_loaded) (strip (py ''acme/encoder'')) = (Inr handle_768, disk st_loaded)"
    by (simp add: lib_loads_def lib_plain_def)
  have d: "get_sentence_embedding_dimension handle_768 = Some 768" by (simp add: handle_768_def)
  have u: "st_loaded\<lparr>disk := disk st_loaded\<rparr> = st_loaded" by simp
  from download_other_name_keeps_registry[where req_name = "py ''acme/encoder''" and cfg = cfg_default
         and lib = lib_loads and st = st_loaded]
    ne ne0 l d
  have "model_download lib_loads cfg_default st_loaded (py ''acme/encoder'') =
            ([(''ok'', JBool True), (''model'', JStr (strip (py ''acme/encoder''))), (''cached'', JBool True),
              (''dim'', JInt 768)], st_loaded\<lparr>disk := disk st_loaded\<rparr>)"
    by blast
  then show ?thesis using ne unfolding u s by (simp add: st_loaded_def)
qed

text \<open>
  When the load itself raises, the handler returns the failure with the error text and
  \<open>model\<close> and \<open>DIM\<close> are as before.
\<close>

lemma download_load_failure_keeps_registry:
  assumes "SentenceTransformer lib (disk st) (strip req_name) = (Inl e, fs')" and "strip req_name \<noteq> []"
  shows "model_download lib cfg st req_name =
           ([(''ok'', JBool False), (''model'', JStr (strip req_name)), (''error'', JStr e)],
            st\<lparr>disk := fs'\<rparr>)"
  using assms by (simp add: model_download_def download_try_def Let_def)

text \<open>
  C3 fails on the following input. The configured model is \<open>acme/encoder\<close>, a model with
  dimension 384 is active, and the download of \<open>acme/encoder\<close> loads a model whose
  \<open>get_sentence_embedding_dimension\<close> is \<open>None\<close>. The assignment \<open>_model = m\<close> runs, then
  \<open>int(None)\<close> raises inside the \<open>try\<close> block: the response is the failure with the error
  text, and the state holds the new handle with the old dimension.
\<close>

theorem download_failure_after_swap:
  "MODEL_NAME cfg_acme = py ''acme/encoder''
   \<and> model st_acme = Some handle_384 \<and> DIM st_acme = 384
   \<and> model_download lib_no_dim cfg_acme st_acme (py ''acme/encoder'') =
       ([(''ok'', JBool False), (''model'', JStr (py ''acme/encoder'')),
         (''error'', JStr (py ''int() argument must be a string, a bytes-like object or a real number, not ''
                           @ [39] @ py ''NoneType'' @ [39]))],
        \<lparr>model = Some handle_no_dim, DIM = 384, disk = fs_acme\<rparr>)"
  by (simp add: eval_defs)

section \<open>Delete\<close>

text \<open>
  The parts of C1 and C6 that hold of the handler. When the cache path is a directory and
  its removal raises, the response is the failure with the error text and the state keeps
  \<open>model\<close> and \<open>DIM\<close>; when the removal of the configured model's directory succeeds, the
  state is unloaded. When \<open>is_dir\<close> itself raises, the response is the failure and the state
  is untouched. When there is no directory and the name is not the configured one, the
  response is the success and the state is untouched.
\<close>

lemma delete_removal_raises:
  assumes "strip req_name \<noteq> []"
    and "is_dir (disk st) (model_cache_path cfg (strip req_name)) = Inr True"
    and "rmtree_fault lib (disk st) (model_cache_path cfg (strip req_name)) = Some (e, fs')"
  shows "model_delete lib cfg st req_name =
           ([(''ok'', JBool False), (''model'', JStr (strip req_name)), (''error'', JStr e)],
            st\<lparr>disk := fs'\<rparr>)"
  using assms by (simp add: model_delete_def delete_try_def rmtree_def Let_def)

lemma delete_removal_succeeds:
  assumes "strip req_name = MODEL_NAME cfg"
    and "is_dir (disk st) (model_cache_path cfg (MODEL_NAME cfg)) = Inr True"
    and "rmtree_fault lib (disk st) (model_cache_path cfg (MODEL_NAME cfg)) = None"
  shows "model_delete lib cfg st req_name =
           ([(''ok'', JBool True), (''model'', JStr (MODEL_NAME cfg)), (''cached'', JBool False)],
            \<lparr>model = None, DIM = 0,
             disk = remove_tree (disk st) (model_cache_path cfg (MODEL_NAME cfg))\<rparr>)"
  using assms MODEL_NAME_nonempty[of cfg]
  by (cases st) (simp add: model_delete_def delete_try_def rmtree_def Let_def)

lemma delete_is_dir_raises:
  assumes "strip req_name \<noteq> []"
    and "is_dir (disk st) (model_cache_path cfg (strip req_name)) = Inl e"
  shows "model_delete lib cfg st req_name =
           ([(''ok'', JBool False), (''model'', JStr (strip req_name)), (''error'', JStr e)], st)"
  using assms by (simp add: model_delete_def delete_try_def Let_def)

lemma delete_absent_other_name:
  assumes "strip req_name \<noteq> []"
    and "is_dir (disk st) (model_cache_path cfg (strip req_name)) = Inr False"
    and "strip req_name \<noteq> MODEL_NAME cfg"
  shows "model_delete lib cfg st req_name =
           ([(''ok'', JBool True), (''model'', JStr (strip req_name)), (''cached'', JBool False)], st)"
  using assms by (simp add: model_delete_def delete_try_def Let_def)

text \<open>
  C1 fails on the following input. The default model \<open>all-MiniLM-L6-v2\<close> is loaded, from the
  folder \<open>models--sentence-transformers--all-MiniLM-L6-v2\<close>; the cache path of the name,
  \<open>models--all-MiniLM-L6-v2\<close>, is not a directory. \<open>model_delete\<close> removes nothing and returns
  the success, and the statement that unloads the model, which stands after the \<open>is_dir\<close>
  test and not under it, has run: the state has no model and dimension 0.
\<close>

theorem delete_absent_path_unloads:
  "is_dir (disk st_loaded) (model_cache_path cfg_default (strip (py ''all-MiniLM-L6-v2''))) = Inr False
   \<and> model st_loaded = Some handle_384 \<and> DIM st_loaded = 384
   \<and> model_delete lib_plain cfg_default st_loaded (py ''all-MiniLM-L6-v2'') =
       ([(''ok'', JBool True), (''model'', JStr (py ''all-MiniLM-L6-v2'')), (''cached'', JBool False)],
        \<lparr>model = None, DIM = 0, disk = fs_prefixed\<rparr>)"
  by (simp add: eval_defs)

text \<open>
  C6 fails on the same input. The request names the configured model while it is loaded;
  no removal runs, none succeeds, the disk is as before and \<open>is_model_cached\<close> still returns
  true for the model, and the state is unloaded.
\<close>

theorem delete_unloads_without_removal:
  "strip (py ''all-MiniLM-L6-v2'') = MODEL_NAME cfg_default
   \<and> model st_loaded = Some handle_384
   \<and> disk (snd (model_delete lib_plain cfg_default st_loaded (py ''all-MiniLM-L6-v2''))) = disk st_loaded
   \<and> is_model_cached cfg_default
       (disk (snd (model_delete lib_plain cfg_default st_loaded (py ''all-MiniLM-L6-v2''))))
       (MODEL_NAME cfg_default) = Inr True
   \<and> model (snd (model_delete lib_plain cfg_default st_loaded (py ''all-MiniLM-L6-v2''))) = None
   \<and> DIM (snd (model_delete lib_plain cfg_default st_loaded (py ''all-MiniLM-L6-v2''))) = 0"
  by (simp add: eval_defs)

text \<open>
  A removal that succeeds leaves no \<open>snapshots\<close> directory under the removed cache path, so
  for an identifier with a provider segment \<open>is_model_cached\<close> does not return true after the
  delete.
\<close>

lemma map_of_remove_tree: "inside p q \<Longrightarrow> map_of (remove_tree fs p) q = None"
  by (induction fs) (auto simp: remove_tree_def)

lemma snapshots_inside: "inside (model_cache_path cfg n) (truediv (model_cache_path cfg n) (py ''snapshots''))"
  by (simp add: inside_def truediv_clean clean_literals)

lemma check_after_remove_tree: "check cfg (remove_tree fs (model_cache_path cfg n)) n \<noteq> Inr True"
  by (simp add: check_True_iff is_dir_def map_of_remove_tree snapshots_inside split: option.splits)

lemma delete_qualified_clears_cache:
  assumes "slash \<in> set (strip req_name)"
    and "is_dir (disk st) (model_cache_path cfg (strip req_name)) = Inr True"
    and "rmtree_fault lib (disk st) (model_cache_path cfg (strip req_name)) = None"
  shows "is_model_cached cfg (disk (snd (model_delete lib cfg st req_name))) (strip req_name) \<noteq> Inr True"
proof -
  from assms(1) have ne: "strip req_name \<noteq> []" by auto
  have "disk (snd (model_delete lib cfg st req_name))
        = remove_tree (disk st) (model_cache_path cfg (strip req_name))"
    using ne assms(2,3) by (simp add: model_delete_def delete_try_def rmtree_def Let_def)
  then show ?thesis
    using assms(1) check_after_remove_tree[of cfg "disk st" "strip req_name"]
    by (auto simp: is_model_cached_def split: sum.splits)
qed

text \<open>
  C4 fails on the following input. The default model \<open>all-MiniLM-L6-v2\<close> is cached under the
  folder \<open>models--sentence-transformers--all-MiniLM-L6-v2\<close>, where \<open>is_model_cached\<close> finds it.
  \<open>model_delete\<close> looks at \<open>models--all-MiniLM-L6-v2\<close> only: it answers \<open>ok = True\<close> and
  \<open>cached = False\<close>, and \<open>is_model_cached\<close> is still true on the disk it leaves.
\<close>

theorem delete_leaves_prefixed_snapshot:
  "is_model_cached cfg_default (disk st_loaded) (py ''all-MiniLM-L6-v2'') = Inr True
   \<and> fst (model_delete lib_plain cfg_default st_loaded (py ''all-MiniLM-L6-v2'')) =
       [(''ok'', JBool True), (''model'', JStr (py ''all-MiniLM-L6-v2'')), (''cached'', JBool False)]
   \<and> is_model_cached cfg_default
       (disk (snd (model_delete lib_plain cfg_default st_loaded (py ''all-MiniLM-L6-v2''))))
       (py ''all-MiniLM-L6-v2'') = Inr True"
  by (simp add: eval_defs)

end
